theory Spec2Isabelle
  imports Main "HOL-Library.AList"
begin

unbundle bit_operations_syntax

section \<open>Python values used by lint/linter.py\<close>

text \<open>
  The exceptions that the methods of \<open>Linter\<close> can raise. A raise is a value: the
  functions below return \<open>pyerr + 'a\<close> (\<open>Inl\<close> the exception), or the state reached
  together with \<open>pyerr option\<close> where the object was already mutated before the raise.
\<close>

datatype pyerr = NotImplementedError | AttributeError | TypeError | ValueError | KeyError

text \<open>
  Strings are Python \<open>str\<close> values over the code points below 256, one \<open>char\<close> per
  code point.
\<close>

definition py_isspace :: "char \<Rightarrow> bool" where
  \<comment> \<open>\<open>str.isspace\<close> on one code point below 256\<close>
  "py_isspace c = ((of_char c :: nat) \<in> {9, 10, 11, 12, 13, 28, 29, 30, 31, 32, 133, 160})"

definition strip :: "string \<Rightarrow> string" where
  \<comment> \<open>\<open>str.strip()\<close>\<close>
  "strip s = rev (dropWhile py_isspace (rev (dropWhile py_isspace s)))"

definition lower_char :: "char \<Rightarrow> char" where
  \<comment> \<open>\<open>str.lower\<close> on one code point below 256: A-Z and the Latin-1 capitals\<close>
  "lower_char c =
     (let n = (of_char c :: nat)
      in if (65 \<le> n \<and> n \<le> 90) \<or> (192 \<le> n \<and> n \<le> 214) \<or> (216 \<le> n \<and> n \<le> 222)
         then char_of (n + 32) else c)"

definition lower :: "string \<Rightarrow> string" where
  \<comment> \<open>\<open>str.lower()\<close>\<close>
  "lower s = map lower_char s"

definition digit_of :: "char \<Rightarrow> nat option" where
  "digit_of c =
     (let n = (of_char c :: nat) in if 48 \<le> n \<and> n \<le> 57 then Some (n - 48) else None)"

fun digits_val :: "nat \<Rightarrow> string \<Rightarrow> nat option" where
  "digits_val acc [] = Some acc"
| "digits_val acc (c # cs) =
     (case digit_of c of None \<Rightarrow> None | Some d \<Rightarrow> digits_val (10 * acc + d) cs)"

definition int_isspace :: "char \<Rightarrow> bool" where
  \<comment> \<open>what \<open>int()\<close> skips around the number: the ASCII whitespace, and the code points
      above 127 that are spaces; the separators 0x1C to 0x1F are not skipped\<close>
  "int_isspace c = ((of_char c :: nat) \<in> {9, 10, 11, 12, 13, 32, 133, 160})"

definition py_int :: "string \<Rightarrow> int option" where
  \<comment> \<open>\<open>int(s)\<close> for a str: surrounding whitespace, an optional sign, decimal digits
      (no underscores between digits, as in the Python 3.3 that hosts the plugin);
      \<open>None\<close> stands for the ValueError\<close>
  "py_int s =
     (case rev (dropWhile int_isspace (rev (dropWhile int_isspace s))) of
        [] \<Rightarrow> None
      | c # cs \<Rightarrow>
          if c = CHR ''-'' then
            (if cs = [] then None else map_option (\<lambda>n. - int n) (digits_val 0 cs))
          else if c = CHR ''+'' then
            (if cs = [] then None else map_option int (digits_val 0 cs))
          else map_option int (digits_val 0 (c # cs)))"

definition int_of :: "string option \<Rightarrow> pyerr + int" where
  \<comment> \<open>\<open>int(x)\<close> where \<open>x\<close> is \<open>None\<close> or a str\<close>
  "int_of x =
     (case x of
        None \<Rightarrow> Inl TypeError
      | Some s \<Rightarrow> (case py_int s of None \<Rightarrow> Inl ValueError | Some n \<Rightarrow> Inr n))"

definition str_truthy :: "string option \<Rightarrow> bool" where
  \<comment> \<open>truth value of \<open>None\<close> or a str\<close>
  "str_truthy x = (case x of None \<Rightarrow> False | Some s \<Rightarrow> s \<noteq> [])"

section \<open>Match objects and split_match\<close>

text \<open>
  The regular-expression engine is Python's \<open>re\<close>, outside the repository. Of a match
  object the code reads its truth value (always true) and \<open>groupdict()\<close>: the named
  groups of the pattern, each with the text it captured or \<open>None\<close> when the group took
  no part in the match. \<open>groupdict m k = None\<close>: the pattern has no group \<open>k\<close>;
  \<open>Some None\<close>: the group exists and captured nothing; \<open>Some (Some s)\<close>: it captured
  \<open>s\<close>.
\<close>

datatype rmatch = Match (groupdict: "string \<Rightarrow> string option option")

text \<open>The column of a RawMatch: \<open>None\<close>, a falsy str left as it is, or an int.\<close>

datatype colval = CNone | CStr string | CInt int

type_synonym raw_match =
  "rmatch option \<times> int option \<times> colval \<times> string option \<times> string option \<times> string option"

definition items_init :: "string \<Rightarrow> string option option" where
  \<comment> \<open>\<open>{'line': None, 'col': None, 'type': None, 'error': '', 'near': None}\<close>\<close>
  "items_init =
     [''line'' \<mapsto> None, ''col'' \<mapsto> None, ''type'' \<mapsto> None, ''error'' \<mapsto> Some [],
      ''near'' \<mapsto> None]"

definition getitem :: "('k \<Rightarrow> 'v option) \<Rightarrow> 'k \<Rightarrow> pyerr + 'v" where
  \<comment> \<open>\<open>d[k]\<close>\<close>
  "getitem d k = (case d k of None \<Rightarrow> Inl KeyError | Some v \<Rightarrow> Inr v)"

definition convert_match ::
  "rmatch \<Rightarrow> string option \<Rightarrow> string option \<Rightarrow> string option \<Rightarrow> string option \<Rightarrow>
   string option \<Rightarrow> pyerr + raw_match" where
  \<comment> \<open>lines 369-374: \<open>row = int(row) - 1\<close>, \<open>if col: col = int(col) - 1\<close>, return\<close>
  "convert_match m row col error_type error near =
     (case int_of row of
        Inl e \<Rightarrow> Inl e
      | Inr r \<Rightarrow>
          if str_truthy col then
            (case int_of col of
               Inl e \<Rightarrow> Inl e
             | Inr c \<Rightarrow> Inr (Some m, Some (r - 1), CInt (c - 1), error_type, error, near))
          else
            Inr (Some m, Some (r - 1), (case col of None \<Rightarrow> CNone | Some s \<Rightarrow> CStr s),
                 error_type, error, near))"

fun split_match :: "rmatch option \<Rightarrow> pyerr + raw_match" where
  "split_match None = Inr (None, None, CNone, None, Some [], None)"
| "split_match (Some m) =
     (let items = items_init ++ groupdict m in
      (case getitem items ''line'' of Inl e \<Rightarrow> Inl e | Inr row \<Rightarrow>
      (case getitem items ''col'' of Inl e \<Rightarrow> Inl e | Inr col \<Rightarrow>
      (case getitem items ''type'' of Inl e \<Rightarrow> Inl e | Inr error_type \<Rightarrow>
      (case getitem items ''error'' of Inl e \<Rightarrow> Inl e | Inr error \<Rightarrow>
      (case getitem items ''near'' of Inl e \<Rightarrow> Inl e | Inr near \<Rightarrow>
        convert_match m row col error_type error near))))))"

section \<open>Checker classes and instances\<close>

text \<open>
  The class attributes a subclass of \<open>Linter\<close> declares. \<open>language\<close> is a str or a
  tuple/list of str; \<open>cmd\<close> is a str, a tuple/list, or a callable, of which the model
  keeps the value it returns. \<open>name\<close> is the attribute the registry sets on the class,
  \<open>cname\<close> is \<open>__name__\<close>. The class attribute \<open>defaults\<close> is the one that
  get_settings mutates; it lives in the state, under the class name (see below).
\<close>

datatype lang = LangStr string | LangSeq "string list"

datatype cmdval = CmdNone | CmdStr string | CmdSeq "string list"

datatype cmd = Static cmdval | Callable cmdval

record linter_class =
  name :: string
  cname :: string
  language :: lang
  cmd :: cmd
  regex :: string
  multiline :: bool
  re_flags :: int
  tempfile_suffix :: "string option"
  tab_width :: int
  selector :: "string option"
  outline :: bool

definition lang_truthy :: "lang \<Rightarrow> bool" where
  "lang_truthy x = (case x of LangStr s \<Rightarrow> s \<noteq> [] | LangSeq xs \<Rightarrow> xs \<noteq> [])"

definition cmdval_truthy :: "cmdval \<Rightarrow> bool" where
  "cmdval_truthy x =
     (case x of CmdNone \<Rightarrow> False | CmdStr s \<Rightarrow> s \<noteq> [] | CmdSeq xs \<Rightarrow> xs \<noteq> [])"

definition cmd_truthy :: "cmd \<Rightarrow> bool" where
  \<comment> \<open>a function object is true\<close>
  "cmd_truthy x = (case x of Static v \<Rightarrow> cmdval_truthy v | Callable v \<Rightarrow> True)"

text \<open>
  \<open>self.regex\<close>: the class's pattern str until \<open>__init__\<close> replaces it by the compiled
  pattern object of the engine (type \<open>'rx\<close>).
\<close>

datatype 'rx regex_val = RStr string | RCompiled 'rx

definition regex_truthy :: "'rx regex_val \<Rightarrow> bool" where
  \<comment> \<open>a compiled pattern object is true\<close>
  "regex_truthy r = (case r of RStr s \<Rightarrow> s \<noteq> [] | RCompiled rx \<Rightarrow> True)"

text \<open>
  The class \<open>Highlight\<close> is outside this file. The model keeps how the accumulator was
  constructed and the calls made on it since, in order; the one call whose result the
  code reads, \<open>full_line\<close>, is a parameter of the environment.
\<close>

datatype hl_init = HlDefault | HlArgs string bool

datatype hl_call = Range int colval | Near int string | Line int | MoveTo int int

record hl =
  hl_init :: hl_init
  hl_calls :: "hl_call list"

definition hl_do :: "hl_call \<Rightarrow> hl \<Rightarrow> hl" where
  "hl_do c h = h\<lparr>hl_calls := hl_calls h @ [c]\<rparr>"

text \<open>The diagnostic map \<open>self.errors\<close>: line to the list of (column, message).\<close>

type_synonym errors = "(int \<times> (colval \<times> string) list) list"

record 'rx linter =
  oid :: nat
  cls :: linter_class
  view :: nat
  syntax' :: string
  filename :: "string option"
  self_regex :: "'rx regex_val"
  self_re_flags :: int
  highlight :: hl
  errors :: "errors option"
  code :: "string option"

text \<open>
  What the code obtains from outside: Python's \<open>re\<close> (\<open>re_compile\<close> returns
  \<open>None\<close> where \<open>re.compile\<close> raises; \<open>re_finditer\<close> lists the matches in the order
  the iterator produces them), \<open>Highlight.full_line\<close>, and \<open>util.communicate\<close>.
\<close>

record 'rx env =
  re_compile :: "string \<Rightarrow> int \<Rightarrow> 'rx option"
  re_finditer :: "'rx \<Rightarrow> string \<Rightarrow> rmatch list"
  re_match :: "'rx \<Rightarrow> string \<Rightarrow> rmatch option"
  full_line :: "hl \<Rightarrow> int \<Rightarrow> int \<times> int"
  communicate :: "string list \<Rightarrow> string \<Rightarrow> string"

text \<open>The calls of \<open>persist.debug\<close>, each with the values formatted into its message.\<close>

datatype log_entry =
    CompileError lang
  | LintAs string "string list"
  | Output string string

definition init ::
  "'rx env \<Rightarrow> linter_class \<Rightarrow> nat \<Rightarrow> nat \<Rightarrow> string \<Rightarrow> string option \<Rightarrow> log_entry list \<Rightarrow>
   'rx linter \<times> log_entry list" where
  \<comment> \<open>\<open>__init__(self, view, syntax, filename)\<close>; \<open>re.MULTILINE\<close> is 8\<close>
  "init env c i vid syn fname log =
     (let l = \<lparr>oid = i, cls = c, view = vid, syntax' = syn, filename = fname,
                self_regex = RStr (regex c), self_re_flags = re_flags c,
                highlight = \<lparr>hl_init = HlDefault, hl_calls = []\<rparr>,
                errors = None, code = None\<rparr>
      in if regex c \<noteq> [] then
           (let flags = (if multiline c then re_flags c OR 8 else re_flags c) in
            case re_compile env (regex c) flags of
              Some rx \<Rightarrow> (l\<lparr>self_regex := RCompiled rx, self_re_flags := flags\<rparr>, log)
            | None \<Rightarrow> (l\<lparr>self_re_flags := flags\<rparr>, log @ [CompileError (language c)]))
         else (l, log))"

definition reset :: "'rx linter \<Rightarrow> string \<Rightarrow> string option \<Rightarrow> 'rx linter" where
  \<comment> \<open>\<open>reset(self, code, filename=None, highlight=None)\<close> as lint_view calls it\<close>
  "reset l src fname =
     l\<lparr>errors := Some [],
       code := Some src,
       filename := (if str_truthy fname then fname else filename l),
       highlight := \<lparr>hl_init = HlArgs src (outline (cls l)), hl_calls = []\<rparr>\<rparr>"

section \<open>Extraction: find_errors\<close>

text \<open>
  A generator is the list of the values it yields, in order, with the exception that
  ends the iteration, if one does.
\<close>

fun yield_all :: "('a \<Rightarrow> pyerr + 'b) \<Rightarrow> 'a list \<Rightarrow> 'b list \<times> pyerr option" where
  "yield_all f [] = ([], None)"
| "yield_all f (x # xs) =
     (case f x of
        Inl e \<Rightarrow> ([], Some e)
      | Inr y \<Rightarrow> (case yield_all f xs of (ys, r) \<Rightarrow> (y # ys, r)))"

definition iter_truthy :: "'a list \<Rightarrow> bool" where
  \<comment> \<open>\<open>finditer\<close> returns an iterator object, which has neither \<open>__bool__\<close> nor
      \<open>__len__\<close>: it is true whatever it will produce\<close>
  "iter_truthy it = True"

definition is_linebreak :: "char \<Rightarrow> bool" where
  \<comment> \<open>the line boundaries of \<open>str.splitlines\<close> below code point 256\<close>
  "is_linebreak c = ((of_char c :: nat) \<in> {10, 11, 12, 13, 28, 29, 30, 133})"

fun splitlines_acc :: "string \<Rightarrow> string \<Rightarrow> string list" where
  "splitlines_acc cur [] = (if cur = [] then [] else [rev cur])"
| "splitlines_acc cur (c # cs) =
     (if c = CHR 0x0D \<and> cs \<noteq> [] \<and> hd cs = CHR 0x0A then rev cur # splitlines_acc [] (tl cs)
      else if is_linebreak c then rev cur # splitlines_acc [] cs
      else splitlines_acc (c # cur) cs)"

definition splitlines :: "string \<Rightarrow> string list" where
  "splitlines s = splitlines_acc [] s"

definition match_error :: "'rx env \<Rightarrow> 'rx regex_val \<Rightarrow> string \<Rightarrow> pyerr + raw_match" where
  \<comment> \<open>\<open>r.match(line)\<close>: a str has no attribute \<open>match\<close>\<close>
  "match_error env r line =
     (case r of
        RStr s \<Rightarrow> Inl AttributeError
      | RCompiled rx \<Rightarrow> split_match (re_match env rx line))"

definition find_errors ::
  "'rx env \<Rightarrow> 'rx linter \<Rightarrow> string \<Rightarrow> raw_match list \<times> pyerr option" where
  "find_errors env l output =
     (if multiline (cls l) then
        (case self_regex l of
           RStr s \<Rightarrow> ([], Some AttributeError)
         | RCompiled rx \<Rightarrow>
             (let errors = re_finditer env rx output in
              if iter_truthy errors then yield_all (\<lambda>error. split_match (Some error)) errors
              else yield_all split_match [None]))
      else yield_all (\<lambda>line. match_error env (self_regex l) (strip line)) (splitlines output))"

section \<open>Running one checker: lint\<close>

definition py_slice :: "'a list \<Rightarrow> int \<Rightarrow> int \<Rightarrow> 'a list" where
  \<comment> \<open>\<open>xs[a:b]\<close>: negative indices count from the end, both are clamped\<close>
  "py_slice xs a b =
     (let n = int (length xs);
          lo = (if a < 0 then max 0 (n + a) else min n a);
          hi = (if b < 0 then max 0 (n + b) else min n b)
      in take (nat (hi - lo)) (drop (nat lo) xs))"

fun tab_loop :: "int \<Rightarrow> string \<Rightarrow> int \<Rightarrow> int \<Rightarrow> int \<Rightarrow> int" where
  \<comment> \<open>lines 301-307: the characters from index \<open>i\<close> on, \<open>diff\<close> so far, \<open>col\<close>\<close>
  "tab_loop tw [] i diff col = col"
| "tab_loop tw (c # cs) i diff col =
     (let diff' = (if c = CHR 0x09 then diff + (tw - 1) else diff)
      in if col - diff' \<le> i then i else tab_loop tw cs (i + 1) diff' col)"

definition correct_column :: "int \<Rightarrow> string \<Rightarrow> int \<Rightarrow> int" where
  \<comment> \<open>lines 296-307 on an int column: tab width, the text of the line, the column\<close>
  "correct_column tw code_line col = (if tw > 1 then tab_loop tw code_line 0 0 col else col)"

definition adjust_column :: "int \<Rightarrow> string \<Rightarrow> colval \<Rightarrow> pyerr + colval" where
  \<comment> \<open>the same lines on whatever \<open>col\<close> holds: \<open>col - diff\<close> raises unless it is an int\<close>
  "adjust_column tw code_line col =
     (case col of
        CInt c \<Rightarrow> Inr (CInt (correct_column tw code_line c))
      | _ \<Rightarrow> if tw > 1 \<and> code_line \<noteq> [] then Inl TypeError else Inr col)"

definition col_or_0 :: "colval \<Rightarrow> colval" where
  \<comment> \<open>\<open>col or 0\<close>\<close>
  "col_or_0 col =
     (case col of
        CNone \<Rightarrow> CInt 0
      | CStr s \<Rightarrow> if s = [] then CInt 0 else CStr s
      | CInt n \<Rightarrow> CInt n)"

definition py_str :: "string option \<Rightarrow> string" where
  \<comment> \<open>\<open>str(x)\<close> where \<open>x\<close> is \<open>None\<close> or a str\<close>
  "py_str x = (case x of None \<Rightarrow> ''None'' | Some s \<Rightarrow> s)"

definition error ::
  "'rx linter \<Rightarrow> int \<Rightarrow> colval \<Rightarrow> string option \<Rightarrow> pyerr option \<times> 'rx linter" where
  \<comment> \<open>\<open>error(self, line, col, error)\<close>; \<open>line in None\<close> raises\<close>
  "error l line col msg =
     (let l1 = l\<lparr>highlight := hl_do (Line line) (highlight l)\<rparr>;
          entry = (col_or_0 col, py_str msg)
      in case errors l1 of
           None \<Rightarrow> (Some TypeError, l1)
         | Some es \<Rightarrow>
             (case map_of es line of
                Some xs \<Rightarrow> (None, l1\<lparr>errors := Some (AList.update line (xs @ [entry]) es)\<rparr>)
              | None \<Rightarrow> (None, l1\<lparr>errors := Some (AList.update line [entry] es)\<rparr>)))"

definition run :: "'rx env \<Rightarrow> 'rx linter \<Rightarrow> string list \<Rightarrow> string \<Rightarrow> pyerr + string" where
  \<comment> \<open>with a temp-file suffix, \<open>self.tmpfile(cmd, suffix=...)\<close> leaves out the required
      argument \<open>code\<close>, a TypeError\<close>
  "run env l args src =
     (if str_truthy (tempfile_suffix (cls l)) then Inl TypeError
      else Inr (communicate env args src))"

definition line_column :: "'rx env \<Rightarrow> 'rx linter \<Rightarrow> int \<Rightarrow> colval \<Rightarrow> pyerr + colval" where
  \<comment> \<open>lines 296-307: \<open>code_line = self.code[start:end]\<close> of \<open>full_line(row)\<close>, then the
      walk; reading \<open>self.code\<close> before any reset raises\<close>
  "line_column env l row col =
     (if tab_width (cls l) > 1 then
        (case full_line env (highlight l) row of (start, end) \<Rightarrow>
           (case code l of
              None \<Rightarrow> Inl AttributeError
            | Some src \<Rightarrow> adjust_column (tab_width (cls l)) (py_slice src start end) col))
      else Inr col)"

definition lint_item :: "'rx env \<Rightarrow> 'rx linter \<Rightarrow> raw_match \<Rightarrow> pyerr option \<times> 'rx linter" where
  \<comment> \<open>the body of the loop of lint, lines 293-315\<close>
  "lint_item env l x =
     (case x of (m, row_opt, col, error_type, message, near) \<Rightarrow>
        (case (m, row_opt) of
           (Some mt, Some row) \<Rightarrow>
             if col \<noteq> CNone then
               (case line_column env l row col of
                  Inl e \<Rightarrow> (Some e, l)
                | Inr col' \<Rightarrow>
                    error (l\<lparr>highlight := hl_do (Range row col') (highlight l)\<rparr>) row col' message)
             else if str_truthy near then
               error (l\<lparr>highlight := hl_do (Near row (py_str near)) (highlight l)\<rparr>)
                 row col message
             else error (l\<lparr>highlight := hl_do (Line row) (highlight l)\<rparr>) row col message
         | _ \<Rightarrow> (None, l)))"

fun lint_items :: "'rx env \<Rightarrow> 'rx linter \<Rightarrow> raw_match list \<Rightarrow> pyerr option \<times> 'rx linter" where
  "lint_items env l [] = (None, l)"
| "lint_items env l (x # xs) =
     (case lint_item env l x of
        (Some e, l') \<Rightarrow> (Some e, l')
      | (None, l') \<Rightarrow> lint_items env l' xs)"

definition lint ::
  "'rx env \<Rightarrow> 'rx linter \<Rightarrow> log_entry list \<Rightarrow> pyerr option \<times> 'rx linter \<times> log_entry list" where
  \<comment> \<open>the exception raised if any, the instance and the debug log afterwards\<close>
  "lint env l log =
     (if \<not> (lang_truthy (language (cls l)) \<and> cmd_truthy (cmd (cls l))
             \<and> regex_truthy (self_regex l))
      then (Some NotImplementedError, l, log)
      else
        (let cmdv = (case cmd (cls l) of Callable v \<Rightarrow> v | Static v \<Rightarrow> v) in
         if \<not> cmdval_truthy cmdv then (None, l, log)
         else
           (let args = (case cmdv of CmdSeq xs \<Rightarrow> xs | CmdStr s \<Rightarrow> [s] | CmdNone \<Rightarrow> []) in
            case code l of
              None \<Rightarrow> (Some AttributeError, l, log)
            | Some src \<Rightarrow>
                (case run env l args src of
                   Inl e \<Rightarrow> (Some e, l, log)
                 | Inr output \<Rightarrow>
                     if output = [] then (None, l, log)
                     else
                       (let log' = log @ [Output (cname (cls l)) output] in
                        case find_errors env l output of (ms, stop) \<Rightarrow>
                          (case lint_items env l ms of
                             (Some e, l') \<Rightarrow> (Some e, l', log')
                           | (None, l') \<Rightarrow> (stop, l', log')))))))"

section \<open>Settings\<close>

text \<open>The values of the settings files (JSON) that the code tests for truth.\<close>

datatype jval = JNull | JBool bool | JInt int | JStr string | JList "jval list"

fun jval_truthy :: "jval \<Rightarrow> bool" where
  "jval_truthy JNull = False"
| "jval_truthy (JBool b) = b"
| "jval_truthy (JInt n) = (n \<noteq> 0)"
| "jval_truthy (JStr s) = (s \<noteq> [])"
| "jval_truthy (JList xs) = (xs \<noteq> [])"

type_synonym settings = "(string \<times> jval) list"

definition dict_update :: "('k \<times> 'v) list \<Rightarrow> ('k \<times> 'v) list \<Rightarrow> ('k \<times> 'v) list" where
  \<comment> \<open>\<open>d.update(other)\<close>\<close>
  "dict_update d other = fold (\<lambda>(k, v). AList.update k v) other d"

definition dict_get :: "settings \<Rightarrow> string \<Rightarrow> jval" where
  \<comment> \<open>\<open>d.get(k)\<close>\<close>
  "dict_get d k = (case map_of d k of None \<Rightarrow> JNull | Some v \<Rightarrow> v)"

section \<open>The shared state: module persist and the class attribute defaults\<close>

text \<open>
  A view of the editor, as far as the code reads it: \<open>view.id()\<close>,
  \<open>view.settings().get('syntax')\<close> and \<open>view.file_name()\<close>.
\<close>

record view_obj =
  view_id :: nat
  view_syntax :: "string option"
  file_name :: "string option"

text \<open>
  \<open>user_linters\<close> is \<open>persist.settings.get('linters', {})\<close>. \<open>class_defaults\<close> holds,
  under \<open>__name__\<close>, the dict that a class declares as \<open>defaults\<close>; a class without
  an entry has \<open>defaults = None\<close>. \<open>linters\<close> maps a view id to its set of instances,
  kept in the order of creation; every instance has its own \<open>oid\<close>, taken from
  \<open>next_oid\<close>. \<open>erased\<close> lists the instances on which \<open>clear\<close> was called.
\<close>

record 'rx persist =
  user_linters :: "(string \<times> settings) list"
  class_defaults :: "(string \<times> settings) list"
  views :: "(nat \<times> view_obj) list"
  linters :: "(nat \<times> 'rx linter list) list"
  languages :: "(string \<times> linter_class) list"
  debug_log :: "log_entry list"
  erased :: "nat list"
  next_oid :: nat

definition get_settings :: "'rx persist \<Rightarrow> linter_class \<Rightarrow> settings \<times> 'rx persist" where
  \<comment> \<open>\<open>cls.defaults or {}\<close> is the class's own dict when that is not empty, a new dict
      otherwise; \<open>update\<close> then writes into whichever it is\<close>
  "get_settings p c =
     (let user = (case map_of (user_linters p) (cname c) of None \<Rightarrow> [] | Some u \<Rightarrow> u) in
      case map_of (class_defaults p) (cname c) of
        None \<Rightarrow> (dict_update [] user, p)
      | Some d \<Rightarrow>
          if d \<noteq> [] then
            (let d' = dict_update d user
             in (d', p\<lparr>class_defaults := AList.update (cname c) d' (class_defaults p)\<rparr>))
          else (dict_update [] user, p))"

section \<open>Assignment: can_lint, remove, assign\<close>

definition linter_can_lint :: "linter_class \<Rightarrow> string \<Rightarrow> bool" where
  "linter_can_lint c lang0 =
     (let language' = lower lang0 in
      if lang_truthy (language c) then
        (if LangStr language' = language c then True
         else (case language c of
                 LangSeq xs \<Rightarrow> language' \<in> set xs
               | LangStr s \<Rightarrow> False))
      else False)"

definition can_lint :: "linter_class \<Rightarrow> string \<Rightarrow> bool" where
  "can_lint c lang0 = linter_can_lint c lang0"

definition syntax_re_search :: "string \<Rightarrow> string option" where
  \<comment> \<open>\<open>SYNTAX_RE.search(syntax)\<close> and its group 1, for the pattern
      \<open>/([^/]+)\.tmLanguage$\<close>: \<open>$\<close> is the end of the str or the place before a
      final newline; the group is what lies between the last \<open>/\<close> and the suffix\<close>
  "syntax_re_search s =
     (let t = (if s \<noteq> [] \<and> last s = CHR 0x0A then butlast s else s);
          n = length t - length ''.tmLanguage''
      in if length ''.tmLanguage'' \<le> length t \<and> drop n t = ''.tmLanguage'' then
           (let u = take n t;
                g = rev (takeWhile (\<lambda>c. c \<noteq> CHR ''/'') (rev u))
            in if g \<noteq> [] \<and> length g < length u then Some g else None)
         else None)"

definition remove :: "'rx persist \<Rightarrow> nat \<Rightarrow> 'rx persist" where
  "remove p vid =
     (case map_of (linters p) vid of
        None \<Rightarrow> p
      | Some ls \<Rightarrow> p\<lparr>erased := erased p @ map oid ls, linters := AList.delete vid (linters p)\<rparr>)"

fun new_linters ::
  "'rx env \<Rightarrow> view_obj \<Rightarrow> string \<Rightarrow> (string \<times> linter_class) list \<Rightarrow> nat \<Rightarrow> log_entry list \<Rightarrow>
   'rx linter list \<times> nat \<times> log_entry list" where
  \<comment> \<open>lines 144-149: the loop over \<open>persist.languages.items()\<close>\<close>
  "new_linters env v syn [] n log = ([], n, log)"
| "new_linters env v syn ((nm, c) # rest) n log =
     (if can_lint c syn then
        (case init env c n (view_id v) syn (file_name v) log of (l, log') \<Rightarrow>
           (case new_linters env v syn rest (Suc n) log' of (ls, n', log'') \<Rightarrow>
              (l # ls, n', log'')))
      else new_linters env v syn rest n log)"

definition assign ::
  "'rx env \<Rightarrow> 'rx persist \<Rightarrow> view_obj \<Rightarrow> bool \<Rightarrow> 'rx linter list option \<times> 'rx persist" where
  \<comment> \<open>the value returned (\<open>None\<close> or the new set) and the state afterwards\<close>
  "assign env p v reassign =
     (let vid = view_id v;
          p1 = p\<lparr>views := AList.update vid v (views p)\<rparr>
      in if \<not> str_truthy (view_syntax v) then (None, remove p1 vid)
         else
           (let syn = (case view_syntax v of
                         None \<Rightarrow> []
                       | Some raw \<Rightarrow> (case syntax_re_search raw of Some g \<Rightarrow> g | None \<Rightarrow> []))
            in if syn \<noteq> [] then
                 (if (case map_of (linters p1) vid of
                        None \<Rightarrow> False
                      | Some ls \<Rightarrow> ls \<noteq> [] \<and> \<not> reassign \<and> list_ex (\<lambda>l. syntax' l = syn) ls)
                  then (None, p1)
                  else
                    (case new_linters env v syn (languages p1) (next_oid p1) (debug_log p1) of
                       (ls, n, log) \<Rightarrow>
                         (Some ls,
                          p1\<lparr>linters := AList.update vid ls (linters p1),
                             next_oid := n, debug_log := log\<rparr>)))
               else (None, remove p1 vid)))"

section \<open>The lint pass over a view: lint_view\<close>

type_synonym sections = "(string \<times> (int \<times> int \<times> int) list) list"

fun lint_whole ::
  "'rx env \<Rightarrow> string \<Rightarrow> string \<Rightarrow> 'rx persist \<Rightarrow> 'rx linter list \<Rightarrow>
   pyerr option \<times> 'rx persist \<times> 'rx linter list" where
  \<comment> \<open>lines 232-238: the first loop, over all instances of the view\<close>
  "lint_whole env src fname p [] = (None, p, [])"
| "lint_whole env src fname p (l # ls) =
     (case get_settings p (cls l) of (settings, p1) \<Rightarrow>
        if jval_truthy (dict_get settings ''disable'') then
          (case lint_whole env src fname p1 ls of (r, p2, ls') \<Rightarrow> (r, p2, l # ls'))
        else if \<not> str_truthy (selector (cls l)) then
          (case lint env (reset l src (Some fname)) (debug_log p1) of
             (Some e, l', log') \<Rightarrow> (Some e, p1\<lparr>debug_log := log'\<rparr>, l' # ls)
           | (None, l', log') \<Rightarrow>
               (case lint_whole env src fname (p1\<lparr>debug_log := log'\<rparr>) ls of
                  (r, p2, ls') \<Rightarrow> (r, p2, l' # ls')))
        else
          (case lint_whole env src fname p1 ls of (r, p2, ls') \<Rightarrow> (r, p2, l # ls')))"

fun lint_regions ::
  "'rx env \<Rightarrow> string \<Rightarrow> 'rx linter \<Rightarrow> errors \<Rightarrow> log_entry list \<Rightarrow> (int \<times> int \<times> int) list \<Rightarrow>
   pyerr option \<times> 'rx linter \<times> errors \<times> log_entry list" where
  \<comment> \<open>lines 249-256: the loop over the regions of one selector, \<open>acc\<close> the local
      dict \<open>errors\<close>\<close>
  "lint_regions env src l acc log [] = (None, l, acc, log)"
| "lint_regions env src l acc log ((line_offset, left, right) # rs) =
     (let l1 = l\<lparr>highlight := hl_do (MoveTo line_offset left) (highlight l),
                 code := Some (py_slice src left right),
                 errors := Some []\<rparr>
      in case lint env l1 log of
           (Some e, l2, log') \<Rightarrow> (Some e, l2, acc, log')
         | (None, l2, log') \<Rightarrow>
             (case errors l2 of
                None \<Rightarrow> (Some AttributeError, l2, acc, log')
              | Some es \<Rightarrow>
                  lint_regions env src l2
                    (fold (\<lambda>(line, err). AList.update (line + line_offset) err) es acc) log' rs))"

fun lint_scoped ::
  "'rx env \<Rightarrow> string \<Rightarrow> string \<Rightarrow> sections \<Rightarrow> log_entry list \<Rightarrow> 'rx linter list \<Rightarrow>
   pyerr option \<times> log_entry list \<times> 'rx linter list" where
  \<comment> \<open>lines 240-258: the second loop, over the instances that have a selector\<close>
  "lint_scoped env src fname secs log [] = (None, log, [])"
| "lint_scoped env src fname secs log (l # ls) =
     (if str_truthy (selector (cls l)) then
        (case map_of secs (py_str (selector (cls l))) of
           None \<Rightarrow>
             (case lint_scoped env src fname secs log ls of (r, log', ls') \<Rightarrow> (r, log', l # ls'))
         | Some regions \<Rightarrow>
             (case lint_regions env src (reset l src (Some fname)) [] log regions of
                (Some e, l', acc, log') \<Rightarrow> (Some e, log', l' # ls)
              | (None, l', acc, log') \<Rightarrow>
                  (case lint_scoped env src fname secs log' ls of
                     (r, log'', ls') \<Rightarrow> (r, log'', l'\<lparr>errors := Some acc\<rparr> # ls'))))
      else
        (case lint_scoped env src fname secs log ls of (r, log', ls') \<Rightarrow> (r, log', l # ls')))"

definition lint_view ::
  "'rx env \<Rightarrow> 'rx persist \<Rightarrow> nat \<Rightarrow> string option \<Rightarrow> string \<Rightarrow> sections \<Rightarrow>
   pyerr option \<times> 'rx persist \<times> (view_obj option \<times> 'rx linter list) option" where
  \<comment> \<open>the exception raised if any, the state afterwards, and the arguments of the
      callback if it was called\<close>
  "lint_view env p vid fname0 src secs =
     (if src = [] then (None, p, None)
      else
        (case map_of (linters p) vid of
           None \<Rightarrow> (None, p, None)
         | Some ls \<Rightarrow>
             if ls = [] then (None, p, None)
             else
               (let fname = (if str_truthy fname0 then py_str fname0 else ''untitled'');
                    p0 = p\<lparr>debug_log := debug_log p @ [LintAs fname (map (\<lambda>l. name (cls l)) ls)]\<rparr>
                in case lint_whole env src fname p0 ls of
                     (Some e, p1, ls1) \<Rightarrow>
                       (Some e, p1\<lparr>linters := AList.update vid ls1 (linters p1)\<rparr>, None)
                   | (None, p1, ls1) \<Rightarrow>
                       (case lint_scoped env src fname secs (debug_log p1) ls1 of
                          (Some e, log2, ls2) \<Rightarrow>
                            (Some e,
                             p1\<lparr>linters := AList.update vid ls2 (linters p1), debug_log := log2\<rparr>,
                             None)
                        | (None, log2, ls2) \<Rightarrow>
                            (None,
                             p1\<lparr>linters := AList.update vid ls2 (linters p1), debug_log := log2\<rparr>,
                             Some (map_of (views p1) vid,
                                   ls2 @ filter (\<lambda>l. str_truthy (selector (cls l))) ls2))))))"

section \<open>The column correction as the specification words it\<close>

text \<open>
  The specification's wording of the walk, for comparison with \<open>correct_column\<close>:
  \<open>delta\<close> is \<open>(declaredTabWidth - 1)\<close> for every tab among the characters up to and
  including index \<open>i\<close>, and the walk stops at \<open>i\<close> when \<open>rawColumn - delta \<le> i\<close>.
\<close>

definition delta :: "int \<Rightarrow> string \<Rightarrow> nat \<Rightarrow> int" where
  "delta tw line i = (tw - 1) * int (length (filter (\<lambda>c. c = CHR 0x09) (take (Suc i) line)))"

definition stops_at :: "int \<Rightarrow> string \<Rightarrow> int \<Rightarrow> nat \<Rightarrow> bool" where
  "stops_at tw line col i = (col - delta tw line i \<le> int i)"

section \<open>Example values\<close>

text \<open>
  An environment whose engine rejects the pattern \<open>(\<close>, compiles every other pattern to
  itself and finds no occurrence in any text, and whose checker prints one line.
\<close>

definition quiet_env :: "string env" where
  "quiet_env =
     \<lparr>re_compile = (\<lambda>p flags. if p = ''('' then None else Some p),
      re_finditer = (\<lambda>rx s. []),
      re_match = (\<lambda>rx s. None),
      full_line = (\<lambda>h row. (0, 0)),
      communicate = (\<lambda>args src. ''no issues found'')\<rparr>"

definition py_class :: linter_class where
  "py_class =
     \<lparr>name = ''python'', cname = ''Python'', language = LangStr ''python'',
      cmd = Static (CmdStr ''pyflakes''), regex = ''(?P<line>[0-9]+):(?P<error>.+)'',
      multiline = True, re_flags = 0, tempfile_suffix = None, tab_width = 1,
      selector = None, outline = True\<rparr>"

definition php_class :: linter_class where
  "php_class =
     \<lparr>name = ''php'', cname = ''PHP'', language = LangSeq [''php'', ''html''],
      cmd = Static (CmdSeq [''php'', ''-l'']), regex = ''line (?P<line>[0-9]+)'',
      multiline = False, re_flags = 0, tempfile_suffix = None, tab_width = 1,
      selector = Some ''source.php'', outline = True\<rparr>"

definition empty_persist :: "string persist" where
  "empty_persist =
     \<lparr>user_linters = [], class_defaults = [], views = [], linters = [],
      languages = [(''python'', py_class), (''php'', php_class)],
      debug_log = [], erased = [], next_oid = 0\<rparr>"

definition py_view :: view_obj where
  "py_view = \<lparr>view_id = 1, view_syntax = Some ''Packages/Python/Python.tmLanguage'',
              file_name = Some ''a.py''\<rparr>"

definition php_view :: view_obj where
  "php_view = \<lparr>view_id = 2, view_syntax = Some ''Packages/PHP/PHP.tmLanguage'',
              file_name = Some ''a.php''\<rparr>"

text \<open>
  The state after \<open>assign\<close> on the PHP view, with the checker then disabled by the
  user's settings and one diagnostic recorded at line 3.
\<close>

definition seeded :: "string persist" where
  "seeded =
     (let p = snd (assign quiet_env empty_persist php_view False) in
      p\<lparr>user_linters := [(''PHP'', [(''disable'', JBool True)])],
        linters := map (\<lambda>(k, ls). (k, map (\<lambda>l. l\<lparr>errors := Some [(3, [(CInt 0, ''old'')])]\<rparr>) ls))
                     (linters p)\<rparr>)"

definition recorded :: "'rx persist \<Rightarrow> (nat \<times> errors option list) list" where
  \<comment> \<open>the diagnostic maps of all instances, by view\<close>
  "recorded p = map (\<lambda>(k, ls). (k, map errors ls)) (linters p)"

text \<open>
  A state in which the class Python declares the empty dict as its defaults and the
  user disables it, and one in which it declares one default.
\<close>

definition bare_defaults :: "string persist" where
  "bare_defaults =
     empty_persist\<lparr>user_linters := [(''Python'', [(''disable'', JBool True)])],
                   class_defaults := [(''Python'', [])]\<rparr>"

definition with_defaults :: "string persist" where
  "with_defaults =
     empty_persist\<lparr>user_linters := [(''Python'', [(''disable'', JBool True)])],
                   class_defaults := [(''Python'', [(''args'', JStr ''-x'')])]\<rparr>"

definition tab_foo :: string where
  \<comment> \<open>the line \<open>"\tfoo"\<close>\<close>
  "tab_foo = [CHR 0x09, CHR ''f'', CHR ''o'', CHR ''o'']"

section \<open>Extraction in multiline mode\<close>

text \<open>
  C1. The specification asks, in multiline mode, for exactly one empty RawMatch when the output
  holds no occurrence of the pattern. The code tests the iterator object that
  \<open>finditer\<close> returns, which is true whatever it holds, so the branch that yields the
  empty RawMatch is never taken: with no occurrence, find_errors yields nothing.
\<close>

theorem find_errors_multiline_no_occurrence:
  "multiline (cls l) \<Longrightarrow> self_regex l = RCompiled rx \<Longrightarrow> re_finditer env rx output = [] \<Longrightarrow>
   find_errors env l output = ([], None)"
  by (simp add: find_errors_def iter_truthy_def)

theorem find_errors_multiline_no_occurrence_witness:
  "multiline (cls (fst (init quiet_env py_class 0 1 ''python'' None [])))
   \<and> self_regex (fst (init quiet_env py_class 0 1 ''python'' None [])) = RCompiled (regex py_class)
   \<and> re_finditer quiet_env (regex py_class) ''no issues found'' = []
   \<and> find_errors quiet_env (fst (init quiet_env py_class 0 1 ''python'' None []))
        ''no issues found'' = ([], None)"
  using find_errors_multiline_no_occurrence
    [of "fst (init quiet_env py_class 0 1 ''python'' None [])" "regex py_class" quiet_env
        "''no issues found''"]
  by (simp add: init_def quiet_env_def py_class_def)

section \<open>Column correction\<close>

lemma delta_step:
  "delta tw (pre @ c # cs) (length pre) =
     (tw - 1) * int (length (filter (\<lambda>c. c = CHR 0x09) pre)) + (if c = CHR 0x09 then tw - 1 else 0)"
  by (simp add: delta_def algebra_simps)

lemma tab_loop_stop:
  "k < length cs \<Longrightarrow> stops_at tw (pre @ cs) col (length pre + k) \<Longrightarrow>
   (\<forall>j<k. \<not> stops_at tw (pre @ cs) col (length pre + j)) \<Longrightarrow>
   tab_loop tw cs (int (length pre)) ((tw - 1) * int (length (filter (\<lambda>c. c = CHR 0x09) pre))) col
     = int (length pre + k)"
proof (induction cs arbitrary: pre k)
  case Nil
  then show ?case by simp
next
  case (Cons c cs)
  let ?d = "(tw - 1) * int (length (filter (\<lambda>c. c = CHR 0x09) pre))"
  let ?d' = "if c = CHR 0x09 then ?d + (tw - 1) else ?d"
  have here: "stops_at tw (pre @ c # cs) col (length pre) = (col - ?d' \<le> int (length pre))"
    by (simp add: stops_at_def delta_step)
  show ?case
  proof (cases k)
    case 0
    with Cons.prems here show ?thesis by (simp add: Let_def)
  next
    case (Suc k')
    from Cons.prems Suc have nostop: "\<not> col - ?d' \<le> int (length pre)"
      using here by force
    have k': "k' < length cs" using Cons.prems Suc by simp
    have s: "stops_at tw ((pre @ [c]) @ cs) col (length (pre @ [c]) + k')"
      using Cons.prems(2) Suc by simp
    have n: "\<forall>j<k'. \<not> stops_at tw ((pre @ [c]) @ cs) col (length (pre @ [c]) + j)"
    proof (intro allI impI)
      fix j assume "j < k'"
      then have "Suc j < k" using Suc by simp
      with Cons.prems(3) have "\<not> stops_at tw (pre @ c # cs) col (length pre + Suc j)" by blast
      then show "\<not> stops_at tw ((pre @ [c]) @ cs) col (length (pre @ [c]) + j)" by simp
    qed
    have d': "(tw - 1) * int (length (filter (\<lambda>c. c = CHR 0x09) (pre @ [c]))) = ?d'"
      by (simp add: algebra_simps)
    from Cons.IH[OF k' s n] have
      "tab_loop tw cs (int (length pre) + 1) ?d' col = int (length pre + k)"
      using Suc d' by (simp add: add.commute)
    with nostop show ?thesis by (simp add: Let_def)
  qed
qed

lemma tab_loop_none:
  "(\<forall>j<length cs. \<not> stops_at tw (pre @ cs) col (length pre + j)) \<Longrightarrow>
   tab_loop tw cs (int (length pre)) ((tw - 1) * int (length (filter (\<lambda>c. c = CHR 0x09) pre))) col
     = col"
proof (induction cs arbitrary: pre)
  case Nil
  then show ?case by simp
next
  case (Cons c cs)
  let ?d = "(tw - 1) * int (length (filter (\<lambda>c. c = CHR 0x09) pre))"
  let ?d' = "if c = CHR 0x09 then ?d + (tw - 1) else ?d"
  have here: "stops_at tw (pre @ c # cs) col (length pre) = (col - ?d' \<le> int (length pre))"
    by (simp add: stops_at_def delta_step)
  from Cons.prems have "\<not> stops_at tw (pre @ c # cs) col (length pre + 0)" by blast
  then have nostop: "\<not> col - ?d' \<le> int (length pre)" using here by simp
  have n: "\<forall>j<length cs. \<not> stops_at tw ((pre @ [c]) @ cs) col (length (pre @ [c]) + j)"
  proof (intro allI impI)
    fix j assume "j < length cs"
    then have "Suc j < length (c # cs)" by simp
    with Cons.prems have "\<not> stops_at tw (pre @ c # cs) col (length pre + Suc j)" by blast
    then show "\<not> stops_at tw ((pre @ [c]) @ cs) col (length (pre @ [c]) + j)" by simp
  qed
  have d': "(tw - 1) * int (length (filter (\<lambda>c. c = CHR 0x09) (pre @ [c]))) = ?d'"
    by (simp add: algebra_simps)
  from Cons.IH[OF n] have "tab_loop tw cs (int (length pre) + 1) ?d' col = col"
    using d' by (simp add: add.commute)
  with nostop show ?case by (simp add: Let_def)
qed

text \<open>
  C2, as the specification states its example: for the line \<open>"\tfoo"\<close>, tab width 4 and raw
  column 5 the corrected column would be 4. The walk stops at index 2: the tab at index
  0 sets the delta to 3, and \<open>5 - 3 \<le> i\<close> first holds at \<open>i = 2\<close> (at \<open>i = 1\<close>
  for the column 4 that the conversion to 0-based makes of a reported 5).
\<close>

theorem correct_column_tab_foo_counterexample:
  "correct_column 4 tab_foo 5 = 2 \<and> correct_column 4 tab_foo 5 \<noteq> 4
   \<and> correct_column 4 tab_foo 4 = 1"
  by (simp add: correct_column_def tab_foo_def)

text \<open>
  C2, amended. For a tab width above 1, column correction returns the first index \<open>i\<close>
  of the line with \<open>rawColumn - delta \<le> i\<close>, the delta being \<open>(tab width - 1)\<close> per tab
  up to and including \<open>i\<close>, and returns the raw column as it is when no index of the
  line qualifies; for the line \<open>"\tfoo"\<close>, tab width 4 and raw column 5 the corrected
  column is 2.
\<close>

theorem correct_column_first_stop:
  "1 < tw \<Longrightarrow>
   (i < length line \<and> stops_at tw line col i \<and> (\<forall>j<i. \<not> stops_at tw line col j)
      \<longrightarrow> correct_column tw line col = int i)
   \<and> ((\<forall>j<length line. \<not> stops_at tw line col j) \<longrightarrow> correct_column tw line col = col)
   \<and> correct_column 4 tab_foo 5 = 2"
  using tab_loop_stop[of i line tw "[]" col] tab_loop_none[of line tw "[]" col]
  by (simp add: correct_column_def tab_foo_def)

theorem correct_column_first_stop_witness:
  "(1::int) < 4
   \<and> 2 < length tab_foo \<and> stops_at 4 tab_foo 5 2
   \<and> \<not> stops_at 4 tab_foo 5 0 \<and> \<not> stops_at 4 tab_foo 5 1
   \<and> correct_column 4 tab_foo 5 = 2
   \<and> \<not> stops_at 4 tab_foo 7 0 \<and> \<not> stops_at 4 tab_foo 7 1
   \<and> \<not> stops_at 4 tab_foo 7 2 \<and> \<not> stops_at 4 tab_foo 7 3
   \<and> length tab_foo = 4
   \<and> correct_column 4 tab_foo 7 = 7"
proof -
  have w: "(1::int) < 4" by simp
  have a: "2 < length tab_foo \<and> stops_at 4 tab_foo 5 2"
    "\<not> stops_at 4 tab_foo 5 0 \<and> \<not> stops_at 4 tab_foo 5 1"
    by (simp_all add: tab_foo_def stops_at_def delta_def)
  have a': "\<forall>j<2. \<not> stops_at 4 tab_foo 5 j"
    using a(2) by (simp add: less_Suc_eq numeral_2_eq_2)
  have b: "\<not> stops_at 4 tab_foo 7 0 \<and> \<not> stops_at 4 tab_foo 7 1"
    "\<not> stops_at 4 tab_foo 7 2 \<and> \<not> stops_at 4 tab_foo 7 3" "length tab_foo = 4"
    by (simp_all add: tab_foo_def stops_at_def delta_def)
  have b': "\<forall>j<length tab_foo. \<not> stops_at 4 tab_foo 7 j"
    using b by (simp add: less_Suc_eq numeral_eq_Suc)
  show ?thesis
    using w a a' b b'
      correct_column_first_stop[OF w, of 2 tab_foo 5]
      correct_column_first_stop[OF w, of 0 tab_foo 7]
    by simp
qed

section \<open>The lint pass and disabled checkers\<close>

lemma lint_whole_disabled:
  "jval_truthy (dict_get (fst (get_settings p (cls l))) ''disable'') \<Longrightarrow>
   lint_whole env src fname p [l] = (None, snd (get_settings p (cls l)), [l])"
  by (cases "get_settings p (cls l)") simp

text \<open>
  C3. The specification asks that a lint_view pass leaves the diagnostic map of a disabled
  checker as it was, selector-scoped checkers included. The first loop skips a disabled
  checker, the second loop, over the selector-scoped checkers, does not ask: a disabled
  checker whose selector is a key of the sections is reset and run. Here the checker
  PHP is disabled, holds a diagnostic at line 3, and the pass returns with its
  diagnostic map empty.
\<close>

theorem lint_view_disabled_scoped_is_reset:
  "recorded seeded = [(2, [Some [(3, [(CInt 0, ''old'')])]])]
   \<and> jval_truthy (dict_get (fst (get_settings seeded php_class)) ''disable'')
   \<and> fst (lint_view quiet_env seeded 2 None ''<?php x ?>'' [(''source.php'', [(0, 0, 5)])]) = None
   \<and> recorded (fst (snd (lint_view quiet_env seeded 2 None ''<?php x ?>''
                              [(''source.php'', [(0, 0, 5)])])))
       = [(2, [Some []])]"
  by code_simp

section \<open>A pattern that does not compile\<close>

lemma splitlines_acc_nonempty: "cur \<noteq> [] \<or> s \<noteq> [] \<Longrightarrow> splitlines_acc cur s \<noteq> []"
  by (induction s arbitrary: cur) auto

lemma splitlines_nonempty: "s \<noteq> [] \<Longrightarrow> splitlines s \<noteq> []"
  by (simp add: splitlines_def splitlines_acc_nonempty)

lemma find_errors_uncompiled:
  "self_regex l = RStr s \<Longrightarrow> output \<noteq> [] \<Longrightarrow> find_errors env l output = ([], Some AttributeError)"
proof -
  assume a: "self_regex l = RStr s" "output \<noteq> []"
  then obtain x xs where "splitlines output = x # xs"
    using splitlines_nonempty by (cases "splitlines output") auto
  with a show ?thesis by (simp add: find_errors_def match_error_def)
qed

text \<open>
  C4. The specification asks that a pattern that fails to compile only disables the checker and
  that running its lint step afterwards does not raise. \<open>__init__\<close> records the failure
  in the debug log and leaves \<open>self.regex\<close> the pattern str; lint takes the non-empty
  str for a pattern, and as soon as the checker prints anything find_errors calls
  \<open>finditer\<close> or \<open>match\<close> on the str: lint raises AttributeError.
\<close>

theorem lint_after_failed_compile_raises:
  assumes "regex c \<noteq> []"
    and "re_compile env (regex c) (if multiline c then re_flags c OR 8 else re_flags c) = None"
    and "lang_truthy (language c)" and "cmd_truthy (cmd c)"
    and "cmd c = Static (CmdStr a)" and "tempfile_suffix c = None"
    and "communicate env [a] src \<noteq> []"
  shows "snd (init env c i vid syn fname log) = log @ [CompileError (language c)]
    \<and> fst (lint env (reset (fst (init env c i vid syn fname log)) src fname') log')
        = Some AttributeError"
proof -
  let ?l = "fst (init env c i vid syn fname log)"
  have r: "self_regex ?l = RStr (regex c)" and cl: "cls ?l = c"
    using assms(1,2) by (simp_all add: init_def Let_def)
  let ?l' = "reset ?l src fname'"
  have r': "self_regex ?l' = RStr (regex c)" and cl': "cls ?l' = c" and co: "code ?l' = Some src"
    using r cl by (simp_all add: reset_def)
  have a: "a \<noteq> []" using assms(4,5) by (simp add: cmd_truthy_def cmdval_truthy_def)
  have fe: "find_errors env ?l' (communicate env [a] src) = ([], Some AttributeError)"
    using find_errors_uncompiled[OF r' assms(7)] .
  have "fst (lint env ?l' log') = Some AttributeError"
    unfolding lint_def using assms(1,3,4,5,6,7) a r' cl' co fe
    by (simp add: regex_truthy_def cmdval_truthy_def run_def str_truthy_def)
  moreover have "snd (init env c i vid syn fname log) = log @ [CompileError (language c)]"
    using assms(1,2) by (simp add: init_def Let_def)
  ultimately show ?thesis by simp
qed

theorem lint_after_failed_compile_raises_witness:
  "regex (py_class\<lparr>regex := ''(''\<rparr>) \<noteq> []
   \<and> re_compile quiet_env ''('' 8 = None
   \<and> lang_truthy (language (py_class\<lparr>regex := ''(''\<rparr>))
   \<and> cmd (py_class\<lparr>regex := ''(''\<rparr>) = Static (CmdStr ''pyflakes'')
   \<and> communicate quiet_env [''pyflakes''] ''import os'' \<noteq> []
   \<and> snd (init quiet_env (py_class\<lparr>regex := ''(''\<rparr>) 0 1 ''Python'' None [])
       = [CompileError (LangStr ''python'')]
   \<and> fst (lint quiet_env
            (reset (fst (init quiet_env (py_class\<lparr>regex := ''(''\<rparr>) 0 1 ''Python'' None []))
               ''import os'' None) [])
       = Some AttributeError"
proof -
  have h1: "regex (py_class\<lparr>regex := ''(''\<rparr>) \<noteq> []" by simp
  have h2: "re_compile quiet_env (regex (py_class\<lparr>regex := ''(''\<rparr>))
              (if multiline (py_class\<lparr>regex := ''(''\<rparr>)
               then re_flags (py_class\<lparr>regex := ''(''\<rparr>) OR 8
               else re_flags (py_class\<lparr>regex := ''(''\<rparr>)) = None"
    by (simp add: quiet_env_def py_class_def)
  have h3: "lang_truthy (language (py_class\<lparr>regex := ''(''\<rparr>))"
    by (simp add: py_class_def lang_truthy_def)
  have h4: "cmd_truthy (cmd (py_class\<lparr>regex := ''(''\<rparr>))"
    by (simp add: py_class_def cmd_truthy_def cmdval_truthy_def)
  have h5: "cmd (py_class\<lparr>regex := ''(''\<rparr>) = Static (CmdStr ''pyflakes'')"
    by (simp add: py_class_def)
  have h6: "tempfile_suffix (py_class\<lparr>regex := ''(''\<rparr>) = None"
    by (simp add: py_class_def)
  have h7: "communicate quiet_env [''pyflakes''] ''import os'' \<noteq> []"
    by (simp add: quiet_env_def)
  have h8: "re_compile quiet_env ''('' 8 = None" by (simp add: quiet_env_def)
  have l: "language (py_class\<lparr>regex := ''(''\<rparr>) = LangStr ''python''"
    by (simp add: py_class_def)
  show ?thesis
    using h1 h3 h5 h7 h8 l
      lint_after_failed_compile_raises
        [OF h1 h2 h3 h4 h5 h6 h7, of 0 1 "''Python''" None "[]" None "[]"]
    by simp
qed

section \<open>The contract of lint\<close>

text \<open>
  C5. lint on a checker whose language, command or pattern is empty raises
  NotImplementedError and leaves the checker and the log as they were. A checker with
  a language and a pattern whose command-producing function returns an empty command
  returns without raising, whatever the environment, with the checker (its diagnostic
  map included) and the log unchanged. A class that declares the empty pattern gives
  instances whose pattern is empty.
\<close>

theorem lint_contract:
  "(\<not> lang_truthy (language (cls l)) \<or> \<not> cmd_truthy (cmd (cls l)) \<or> \<not> regex_truthy (self_regex l)
      \<longrightarrow> lint env l log = (Some NotImplementedError, l, log))
   \<and> (lang_truthy (language (cls l)) \<and> regex_truthy (self_regex l) \<and> cmd (cls l) = Callable v
       \<and> \<not> cmdval_truthy v \<longrightarrow> lint env l log = (None, l, log))
   \<and> (regex c = [] \<longrightarrow> \<not> regex_truthy (self_regex (fst (init env c i vid syn fname log))))"
  by (auto simp add: lint_def cmd_truthy_def init_def regex_truthy_def)

theorem lint_contract_witness:
  "\<not> lang_truthy (language (cls (fst (init quiet_env (py_class\<lparr>language := LangStr []\<rparr>)
                                        0 1 ''Python'' None []))))
   \<and> fst (lint quiet_env (fst (init quiet_env (py_class\<lparr>language := LangStr []\<rparr>)
                                 0 1 ''Python'' None [])) [])
       = Some NotImplementedError
   \<and> lang_truthy (language (cls (fst (init quiet_env (py_class\<lparr>cmd := Callable (CmdStr [])\<rparr>)
                                        0 1 ''Python'' None []))))
   \<and> regex_truthy (self_regex (fst (init quiet_env (py_class\<lparr>cmd := Callable (CmdStr [])\<rparr>)
                                       0 1 ''Python'' None [])))
   \<and> cmd (cls (fst (init quiet_env (py_class\<lparr>cmd := Callable (CmdStr [])\<rparr>)
                      0 1 ''Python'' None []))) = Callable (CmdStr [])
   \<and> \<not> cmdval_truthy (CmdStr [])
   \<and> lint quiet_env (fst (init quiet_env (py_class\<lparr>cmd := Callable (CmdStr [])\<rparr>)
                            0 1 ''Python'' None [])) []
       = (None, fst (init quiet_env (py_class\<lparr>cmd := Callable (CmdStr [])\<rparr>)
                       0 1 ''Python'' None []), [])
   \<and> regex (py_class\<lparr>regex := []\<rparr>) = []
   \<and> \<not> regex_truthy (self_regex (fst (init quiet_env (py_class\<lparr>regex := []\<rparr>)
                                         0 1 ''Python'' None [])))"
proof -
  let ?l1 = "fst (init quiet_env (py_class\<lparr>language := LangStr []\<rparr>) 0 1 ''Python'' None [])"
  let ?l2 = "fst (init quiet_env (py_class\<lparr>cmd := Callable (CmdStr [])\<rparr>) 0 1 ''Python'' None [])"
  have a: "\<not> lang_truthy (language (cls ?l1))"
    by (simp add: init_def py_class_def quiet_env_def lang_truthy_def)
  have b: "lang_truthy (language (cls ?l2))" "regex_truthy (self_regex ?l2)"
    "cmd (cls ?l2) = Callable (CmdStr [])" "\<not> cmdval_truthy (CmdStr [])"
    by (simp_all add: init_def py_class_def quiet_env_def lang_truthy_def regex_truthy_def
        cmdval_truthy_def)
  have c: "regex (py_class\<lparr>regex := []\<rparr>) = []" by simp
  show ?thesis
    using a b c
      lint_contract[where l = ?l1 and env = quiet_env and log = "[]"]
      lint_contract[where l = ?l2 and env = quiet_env and log = "[]" and v = "CmdStr []"]
      lint_contract[where c = "py_class\<lparr>regex := []\<rparr>" and env = quiet_env and i = 0
          and vid = 1 and syn = "''Python''" and fname = None and log = "[]"]
    by simp
qed

section \<open>Assignment\<close>

lemma syntax_re_search_nonempty: "syntax_re_search raw = Some syn \<Longrightarrow> raw \<noteq> [] \<and> syn \<noteq> []"
  by (auto simp add: syntax_re_search_def Let_def split: if_splits)

text \<open>
  C6. When the view's syntax resolves to a name that an instance of the view's current
  checker set records, \<open>assign\<close> without reassign returns nothing and changes nothing
  but the entry of the view in \<open>persist.views\<close>: the checker sets are the same
  instances and no instance was created.
\<close>

theorem assign_same_syntax_noop:
  assumes "view_syntax v = Some raw" and "syntax_re_search raw = Some syn"
    and "map_of (linters p) (view_id v) = Some ls" and "list_ex (\<lambda>l. syntax' l = syn) ls"
  shows "assign env p v False = (None, p\<lparr>views := AList.update (view_id v) v (views p)\<rparr>)
    \<and> linters (snd (assign env p v False)) = linters p
    \<and> next_oid (snd (assign env p v False)) = next_oid p"
proof -
  have ne: "raw \<noteq> []" "syn \<noteq> []" using syntax_re_search_nonempty[OF assms(2)] by simp_all
  have ls: "ls \<noteq> []" using assms(4) by auto
  have "assign env p v False = (None, p\<lparr>views := AList.update (view_id v) v (views p)\<rparr>)"
    using assms ne ls by (simp add: assign_def str_truthy_def Let_def)
  then show ?thesis by simp
qed

theorem assign_same_syntax_noop_witness:
  "view_syntax py_view = Some ''Packages/Python/Python.tmLanguage''
   \<and> syntax_re_search ''Packages/Python/Python.tmLanguage'' = Some ''Python''
   \<and> map_of (linters (snd (assign quiet_env empty_persist py_view False))) (view_id py_view)
       = Some [fst (init quiet_env py_class 0 1 ''Python'' (Some ''a.py'') [])]
   \<and> list_ex (\<lambda>l. syntax' l = ''Python'')
        [fst (init quiet_env py_class 0 1 ''Python'' (Some ''a.py'') [])]
   \<and> linters (snd (assign quiet_env (snd (assign quiet_env empty_persist py_view False))
                      py_view False))
       = linters (snd (assign quiet_env empty_persist py_view False))
   \<and> next_oid (snd (assign quiet_env (snd (assign quiet_env empty_persist py_view False))
                       py_view False))
       = next_oid (snd (assign quiet_env empty_persist py_view False))"
proof -
  have a: "view_syntax py_view = Some ''Packages/Python/Python.tmLanguage''"
    by (simp add: py_view_def)
  have b: "syntax_re_search ''Packages/Python/Python.tmLanguage'' = Some ''Python''"
    by code_simp
  have c: "map_of (linters (snd (assign quiet_env empty_persist py_view False))) (view_id py_view)
           = Some [fst (init quiet_env py_class 0 1 ''Python'' (Some ''a.py'') [])]"
    by code_simp
  have d: "list_ex (\<lambda>l. syntax' l = ''Python'')
             [fst (init quiet_env py_class 0 1 ''Python'' (Some ''a.py'') [])]"
    by (simp add: init_def Let_def split: option.splits)
  show ?thesis
    using a b c d assign_same_syntax_noop[OF a b c d, of quiet_env] by simp
qed

text \<open>
  C7, as the specification states it: every case variant on either side matches. A class that
  declares \<open>'Python'\<close> does not match the syntax \<open>Python\<close>: only the syntax is
  lowercased before the comparison.
\<close>

theorem can_lint_declared_capital_counterexample:
  "can_lint (py_class\<lparr>language := LangStr ''Python''\<rparr>) ''Python'' = False"
  by code_simp

text \<open>
  C7, amended. Matching ignores the case of the buffer's syntax: for every declared
  language name written in lowercase (by convention all are), whether it is the single
  declared string or a member of the declared tuple or list, can_lint returns true for
  every case variant of that name as the syntax.
\<close>

theorem can_lint_lowercase_declared:
  "(d \<noteq> [] \<and> lower d = d \<and> lower s = lower d \<longrightarrow> can_lint (c\<lparr>language := LangStr d\<rparr>) s)
   \<and> (d \<in> set ds \<and> lower d = d \<and> lower s = lower d
        \<longrightarrow> can_lint (c\<lparr>language := LangSeq ds\<rparr>) s)"
  by (auto simp add: can_lint_def linter_can_lint_def lang_truthy_def)

theorem can_lint_lowercase_declared_witness:
  "''python'' \<noteq> [] \<and> lower ''python'' = ''python'' \<and> lower ''PyThon'' = lower ''python''
   \<and> can_lint (py_class\<lparr>language := LangStr ''python''\<rparr>) ''PyThon''
   \<and> ''html'' \<in> set [''php'', ''html''] \<and> lower ''html'' = ''html'' \<and> lower ''HTML'' = lower ''html''
   \<and> can_lint (py_class\<lparr>language := LangSeq [''php'', ''html'']\<rparr>) ''HTML''"
proof -
  have a: "''python'' \<noteq> [] \<and> lower ''python'' = ''python'' \<and> lower ''PyThon'' = lower ''python''"
    by code_simp
  have b: "''html'' \<in> set [''php'', ''html''] \<and> lower ''html'' = ''html''
           \<and> lower ''HTML'' = lower ''html''"
    by code_simp
  show ?thesis
    using a b
      can_lint_lowercase_declared[of "''python''" "''PyThon''" py_class "[]"]
      can_lint_lowercase_declared[of "''html''" "''HTML''" py_class "[''php'', ''html'']"]
    by blast
qed

section \<open>Normalisation of a match\<close>

text \<open>
  C8. The specification asks that the error field of a normalised match is never null:
  the empty string whenever the message is absent. split_match sets \<open>''\<close> as the
  default of \<open>error\<close>, but \<open>items.update(match.groupdict())\<close> replaces it by \<open>None\<close>
  when the pattern has a group \<open>error\<close> that took no part in the match. Here the
  pattern has the groups \<open>line\<close> and \<open>error\<close>, \<open>line\<close> captured \<open>3\<close> and \<open>error\<close>
  nothing: the error field is \<open>None\<close>, and the loop of lint records the text
  \<open>None\<close> as the message of line 2.
\<close>

theorem split_match_error_unmatched_is_null:
  "split_match (Some (Match [''line'' \<mapsto> Some ''3'', ''error'' \<mapsto> None]))
     = Inr (Some (Match [''line'' \<mapsto> Some ''3'', ''error'' \<mapsto> None]),
            Some 2, CNone, None, None, None)
   \<and> errors (snd (lint_item quiet_env
                    (reset (fst (init quiet_env py_class 0 1 ''Python'' None [])) ''import os'' None)
                    (Some (Match [''line'' \<mapsto> Some ''3'', ''error'' \<mapsto> None]),
                     Some 2, CNone, None, None, None)))
       = Some [(2, [(CInt 0, ''None'')])]"
proof -
  have a: "split_match (Some (Match [''line'' \<mapsto> Some ''3'', ''error'' \<mapsto> None]))
     = Inr (Some (Match [''line'' \<mapsto> Some ''3'', ''error'' \<mapsto> None]),
            Some 2, CNone, None, None, None)"
    by (simp add: getitem_def items_init_def map_add_def convert_match_def int_of_def
        py_int_def int_isspace_def digit_of_def str_truthy_def)
  have b: "errors (snd (lint_item quiet_env
                    (reset (fst (init quiet_env py_class 0 1 ''Python'' None [])) ''import os'' None)
                    (Some (Match [''line'' \<mapsto> Some ''3'', ''error'' \<mapsto> None]),
                     Some 2, CNone, None, None, None)))
       = Some [(2, [(CInt 0, ''None'')])]"
    by (simp add: lint_item_def error_def reset_def str_truthy_def col_or_0_def py_str_def
        hl_do_def)
  from a b show ?thesis by simp
qed

section \<open>Settings and the class's defaults\<close>

lemma map_of_dict_update:
  "map_of (dict_update d u) = map_of d ++ map_of (rev u)"
  unfolding dict_update_def
  by (induction u arbitrary: d) (auto simp add: update_conv' map_add_upd_left fun_eq_iff map_add_def split: option.splits)

lemma dict_update_nonempty: "d \<noteq> [] \<Longrightarrow> dict_update d u \<noteq> []"
  unfolding dict_update_def
proof (induction u arbitrary: d)
  case Nil
  then show ?case by simp
next
  case (Cons a u)
  obtain k v where a: "a = (k, v)" by (cases a)
  have "AList.update k v d \<noteq> []" by (cases d) (auto)
  with Cons.IH a show ?case by simp
qed

lemma map_of_rev_distinct: "distinct (map fst xs) \<Longrightarrow> map_of (rev xs) = map_of xs"
proof (induction xs)
  case Nil
  then show ?case by simp
next
  case (Cons a xs)
  obtain k v where a: "a = (k, v)" by (cases a)
  from Cons.prems a have k: "k \<notin> fst ` set xs" and d: "distinct (map fst xs)" by auto
  from k have n: "map_of xs k = None" by (simp add: map_of_eq_None_iff)
  have "map_of (rev (a # xs)) = map_of [a] ++ map_of (rev xs)" by (simp add: map_of_append)
  also have "\<dots> = map_of [a] ++ map_of xs" using Cons.IH[OF d] by simp
  also have "\<dots> = map_of (a # xs)"
    using n a by (auto simp add: fun_eq_iff map_add_def split: option.splits)
  finally show ?case .
qed

text \<open>
  C9, as the specification states it: any declared defaults dict, the empty one included, is
  mutated. A class that declares \<open>defaults = {}\<close> keeps it empty: \<open>cls.defaults or {}\<close>
  is then a new dict, and the user's settings are merged into that one.
\<close>

theorem get_settings_empty_defaults_counterexample:
  "fst (get_settings bare_defaults py_class) = [(''disable'', JBool True)]
   \<and> class_defaults (snd (get_settings bare_defaults py_class)) = [(''Python'', [])]"
  by code_simp

text \<open>
  C9, amended. When a checker class declares a non-empty defaults dict, get_settings
  merges the user's settings for that checker into that very dict and returns it: the
  class's defaults afterwards are the old defaults overridden by the user's settings,
  and a later call returns them even when the user's settings are gone.
\<close>

theorem get_settings_merges_into_defaults:
  assumes "map_of (class_defaults p) (cname c) = Some d" and "d \<noteq> []"
    and "u = (case map_of (user_linters p) (cname c) of None \<Rightarrow> [] | Some x \<Rightarrow> x)"
    and "distinct (map fst u)"
  shows "fst (get_settings p c) = dict_update d u
    \<and> map_of (class_defaults (snd (get_settings p c))) (cname c) = Some (dict_update d u)
    \<and> map_of (dict_update d u) = map_of d ++ map_of u
    \<and> fst (get_settings ((snd (get_settings p c))\<lparr>user_linters := []\<rparr>) c) = dict_update d u"
proof -
  have g: "get_settings p c =
             (dict_update d u,
              p\<lparr>class_defaults := AList.update (cname c) (dict_update d u) (class_defaults p)\<rparr>)"
    using assms(1,2,3) by (simp add: get_settings_def Let_def)
  have m: "map_of (dict_update d u) = map_of d ++ map_of u"
    using assms(4) by (simp add: map_of_dict_update map_of_rev_distinct)
  have ne: "dict_update d u \<noteq> []" using assms(2) by (rule dict_update_nonempty)
  let ?p' = "p\<lparr>class_defaults := AList.update (cname c) (dict_update d u) (class_defaults p),
               user_linters := []\<rparr>"
  have s: "(snd (get_settings p c))\<lparr>user_linters := []\<rparr> = ?p'" using g by simp
  have d': "map_of (class_defaults ?p') (cname c) = Some (dict_update d u)"
    by (simp add: update_conv')
  have "fst (get_settings ?p' c) = dict_update (dict_update d u) []"
    unfolding get_settings_def using d' ne by (simp add: Let_def)
  then have l: "fst (get_settings ((snd (get_settings p c))\<lparr>user_linters := []\<rparr>) c)
                = dict_update d u"
    using s by (simp add: dict_update_def)
  show ?thesis using g m l by (simp add: update_conv')
qed

theorem get_settings_merges_into_defaults_witness:
  "map_of (class_defaults with_defaults) (cname py_class) = Some [(''args'', JStr ''-x'')]
   \<and> [(''args'', JStr ''-x'')] \<noteq> []
   \<and> map_of (user_linters with_defaults) (cname py_class) = Some [(''disable'', JBool True)]
   \<and> distinct (map fst [(''disable'', JBool True)])
   \<and> map_of (class_defaults (snd (get_settings with_defaults py_class))) (cname py_class)
       = Some [(''args'', JStr ''-x''), (''disable'', JBool True)]
   \<and> fst (get_settings ((snd (get_settings with_defaults py_class))\<lparr>user_linters := []\<rparr>)
            py_class)
       = [(''args'', JStr ''-x''), (''disable'', JBool True)]"
proof -
  have a: "map_of (class_defaults with_defaults) (cname py_class) = Some [(''args'', JStr ''-x'')]"
    by (simp add: with_defaults_def empty_persist_def py_class_def)
  have b: "[(''args'', JStr ''-x'')] \<noteq> ([] :: settings)" by simp
  have u: "map_of (user_linters with_defaults) (cname py_class) = Some [(''disable'', JBool True)]"
    by (simp add: with_defaults_def empty_persist_def py_class_def)
  have c: "[(''disable'', JBool True)]
           = (case map_of (user_linters with_defaults) (cname py_class) of
                None \<Rightarrow> [] | Some x \<Rightarrow> x)"
    using u by simp
  have d: "distinct (map fst [(''disable'', JBool True)])" by simp
  have e: "dict_update [(''args'', JStr ''-x'')] [(''disable'', JBool True)]
           = [(''args'', JStr ''-x''), (''disable'', JBool True)]"
    by (simp add: dict_update_def)
  show ?thesis
    using a u d e get_settings_merges_into_defaults[OF a b c d] by simp
qed

section \<open>split_match on a group that took no part\<close>

text \<open>
  C10. split_match is not total on matches: whenever the pattern has a group named
  \<open>line\<close> that took no part in the match (its captured value is \<open>None\<close>), split_match
  raises at \<open>int(row)\<close> (a TypeError) instead of returning a RawMatch.
\<close>

theorem split_match_line_none_raises:
  "groupdict m ''line'' = Some None \<Longrightarrow> split_match (Some m) = Inl TypeError"
  by (simp add: getitem_def items_init_def map_add_def convert_match_def int_of_def
      split: option.splits)

theorem split_match_line_none_raises_witness:
  "groupdict (Match [''line'' \<mapsto> None, ''error'' \<mapsto> Some ''unused'']) ''line'' = Some None
   \<and> split_match (Some (Match [''line'' \<mapsto> None, ''error'' \<mapsto> Some ''unused'']))
       = Inl TypeError"
  using split_match_line_none_raises
    [of "Match [''line'' \<mapsto> None, ''error'' \<mapsto> Some ''unused'']"]
  by simp

end
